theory Spec2Isabelle
  imports Complex_Main "HOL-Library.Word"
begin

unbundle bit_operations_syntax

section \<open>OpenHaldex interceptor: data model\<close>

text \<open>
  The embedding follows \<^verbatim>\<open>openhaldex_interceptor.ino\<close>. Identifiers, modes and
  sub-commands are the \<^verbatim>\<open>#define\<close> constants of the source.
\<close>

type_synonym u8 = "8 word"
type_synonym u16 = "16 word"
type_synonym u32 = "32 word"

definition HALDEX_ID :: u32 where "HALDEX_ID = 0x2C0"
definition BRAKES1_ID :: u32 where "BRAKES1_ID = 0x1A0"
definition BRAKES3_ID :: u32 where "BRAKES3_ID = 0x4A0"
definition MOTOR1_ID :: u32 where "MOTOR1_ID = 0x280"
definition MOTOR2_ID :: u32 where "MOTOR2_ID = 0x288"
definition MOTOR3_ID :: u32 where "MOTOR3_ID = 0x380"
definition MOTOR6_ID :: u32 where "MOTOR6_ID = 0x488"
definition INTERCEPTOR_INFO_ID :: u32 where "INTERCEPTOR_INFO_ID = 0x7FB"
definition INTERCEPTOR_DATA_CTRL_ID :: u32 where "INTERCEPTOR_DATA_CTRL_ID = 0x7FC"
definition MASTER_MODE_ID :: u32 where "MASTER_MODE_ID = 0x7FD"
definition MASTER_DATA_CTRL_ID :: u32 where "MASTER_DATA_CTRL_ID = 0x7FE"
definition MASTER_DATA_ID :: u32 where "MASTER_DATA_ID = 0x7FF"

definition MODE_STOCK :: u8 where "MODE_STOCK = 0"
definition MODE_FWD :: u8 where "MODE_FWD = 1"
definition MODE_5050 :: u8 where "MODE_5050 = 2"
definition MODE_CUSTOM :: u8 where "MODE_CUSTOM = 3"

definition DATA_CTRL_CHECK_LOCKPOINTS :: u8 where "DATA_CTRL_CHECK_LOCKPOINTS = 0"
definition DATA_CTRL_CLEAR :: u8 where "DATA_CTRL_CLEAR = 1"
definition DATA_CTRL_CHECK_MODE :: u8 where "DATA_CTRL_CHECK_MODE = 2"

definition NUM_LOCK_POINTS :: nat where "NUM_LOCK_POINTS = 10"

text \<open>\<^verbatim>\<open>struct lockpoint\<close>: three bytes.\<close>

record lockpoint =
  speed :: u8
  lock :: u8
  intensity :: u8

definition lockpoint_zero :: lockpoint where
  "lockpoint_zero = \<lparr>speed = 0, lock = 0, intensity = 0\<rparr>"

text \<open>
  The \<^verbatim>\<open>float\<close> arithmetic of the source is not interpreted: the operations the code
  applies to floats are the fields of a record, and every function of the model takes
  that record as its first argument. A theorem proved for an arbitrary record holds for
  the target's single-precision arithmetic in particular.
  \<^item> \<open>f_of_int n\<close> is the conversion \<^verbatim>\<open>(float)n\<close> of an integer expression;
  \<^item> \<open>f_add\<close>, \<open>f_mul\<close>, \<open>f_div\<close> are \<^verbatim>\<open>+\<close>, \<^verbatim>\<open>*\<close>, \<^verbatim>\<open>/\<close> on floats;
  \<^item> \<open>f_gt\<close>, \<open>f_eq\<close> are \<^verbatim>\<open>>\<close> and \<^verbatim>\<open>==\<close> on floats;
  \<^item> \<open>f_to_u8\<close> is the conversion of a float to \<^verbatim>\<open>uint8_t\<close>;
  \<^item> \<open>f_times_0_4 n\<close> is \<^verbatim>\<open>n * 0.4\<close> (a double product) stored into a float.
\<close>

record 'f float_ops =
  f_of_int :: "int \<Rightarrow> 'f"
  f_add :: "'f \<Rightarrow> 'f \<Rightarrow> 'f"
  f_mul :: "'f \<Rightarrow> 'f \<Rightarrow> 'f"
  f_div :: "'f \<Rightarrow> 'f \<Rightarrow> 'f"
  f_gt :: "'f \<Rightarrow> 'f \<Rightarrow> bool"
  f_eq :: "'f \<Rightarrow> 'f \<Rightarrow> bool"
  f_to_u8 :: "'f \<Rightarrow> u8"
  f_times_0_4 :: "int \<Rightarrow> 'f"

text \<open>
  The exact instance over the rationals, used to run the model on concrete inputs.
  The conversion to a byte truncates towards zero and keeps the low eight bits.
\<close>

definition exact_ops :: "rat float_ops" where
  "exact_ops =
     \<lparr>f_of_int = of_int,
      f_add = (\<lambda>a b. a + b),
      f_mul = (\<lambda>a b. a * b),
      f_div = (\<lambda>a b. a / b),
      f_gt = (\<lambda>a b. a > b),
      f_eq = (\<lambda>a b. a = b),
      f_to_u8 = (\<lambda>a. word_of_int (if 0 \<le> a then \<lfloor>a\<rfloor> else \<lceil>a\<rceil>)),
      f_times_0_4 = (\<lambda>n. of_int n * (2 / 5))\<rparr>"

text \<open>
  The globals of the sketch: \<^verbatim>\<open>persistent_config\<close> (mode, pedal threshold, lockpoint
  table) and the runtime variables. The table is a list; the C array has
  \<open>NUM_LOCK_POINTS\<close> entries.
\<close>

record 'f state =
  mode :: u8
  ped_threshold :: 'f
  lockpoints :: "lockpoint list"
  lockpoint_rx :: u16
  lockpoint_count :: u8
  vehicle_speed :: u8
  lock_target :: 'f
  ped_value :: 'f

text \<open>
  \<^verbatim>\<open>CAN_FRAME\<close> of the CAN library, reduced to the fields the sketch uses: identifier,
  length and the eight data bytes (\<^verbatim>\<open>data.bytes\<close>). The words \<^verbatim>\<open>data.low\<close> and
  \<^verbatim>\<open>data.high\<close> of the library's union overlay bytes 0..3 and 4..7, least significant
  byte first (the target is little-endian).
\<close>

record can_frame =
  frame_id :: u32
  frame_length :: u8
  data_bytes :: "u8 list"

datatype error =
    TableIndex int   \<comment> \<open>read of \<^verbatim>\<open>lockpoints[i]\<close> with \<open>i\<close> outside the array\<close>
  | DataOverrun nat  \<comment> \<open>\<^verbatim>\<open>memset\<close> of more bytes than the data union holds\<close>

text \<open>Frames handed to the two CAN controllers.\<close>

datatype tx =
    ToVehicle can_frame \<comment> \<open>\<^verbatim>\<open>Can1.sendFrame\<close>\<close>
  | ToHaldex can_frame  \<comment> \<open>\<^verbatim>\<open>Can0.sendFrame\<close>\<close>

definition wf_frame :: "can_frame \<Rightarrow> bool" where
  "wf_frame f \<longleftrightarrow> length (data_bytes f) = 8 \<and> unat (frame_length f) \<le> 8"

definition wf_table :: "'f state \<Rightarrow> bool" where
  "wf_table s \<longleftrightarrow> length (lockpoints s) = NUM_LOCK_POINTS"

section \<open>Lock target interpolation\<close>

text \<open>
  Reading \<^verbatim>\<open>persistent_config.lockpoints[i]\<close>: an index outside the array is an error
  of the model (the C behaviour there is undefined).
\<close>

definition lp_read :: "lockpoint list \<Rightarrow> int \<Rightarrow> error + lockpoint" where
  "lp_read tbl i =
     (if 0 \<le> i \<and> i < int NUM_LOCK_POINTS \<and> nat i < length tbl then Inr (tbl ! nat i)
      else Inl (TableIndex i))"

text \<open>
  The \<^verbatim>\<open>for\<close> loop of \<^verbatim>\<open>get_lock_target_adjustment\<close>, from index \<open>i\<close>: the pair is
  \<open>(lp_lower, lp_upper)\<close>; the loop leaves at the first entry whose speed is at least
  the vehicle speed.
\<close>

function scan_lockpoints ::
  "lockpoint list \<Rightarrow> u8 \<Rightarrow> int \<Rightarrow> int \<Rightarrow> lockpoint \<times> lockpoint \<Rightarrow> error + lockpoint \<times> lockpoint"
where
  "scan_lockpoints tbl vs n i lu =
     (if i < n then
        (case lp_read tbl i of
           Inl e \<Rightarrow> Inl e
         | Inr lp \<Rightarrow>
             if vs \<le> speed lp then
               (case lp_read tbl (if i = 0 then 0 else i - 1) of
                  Inl e \<Rightarrow> Inl e
                | Inr lw \<Rightarrow> Inr (lw, lp))
             else scan_lockpoints tbl vs n (i + 1) lu)
      else Inr lu)"
  by pat_completeness auto
termination
  by (relation "measure (\<lambda>(tbl, vs, n, i, lu). nat (n - i))") auto

declare scan_lockpoints.simps [simp del]

text \<open>
  The pedal condition \<^verbatim>\<open>ped_value > ped_threshold || ped_threshold == 0\<close>, which
  the source writes out three times.
\<close>

definition pedal_over :: "'f float_ops \<Rightarrow> 'f state \<Rightarrow> bool" where
  "pedal_over F s \<longleftrightarrow>
     f_gt F (ped_value s) (ped_threshold s) \<or> f_eq F (ped_threshold s) (f_of_int F 0)"

text \<open>The tail of \<^verbatim>\<open>get_lock_target_adjustment\<close>, once the two lockpoints are chosen.\<close>

definition lock_between :: "'f float_ops \<Rightarrow> 'f state \<Rightarrow> lockpoint \<Rightarrow> lockpoint \<Rightarrow> 'f" where
  "lock_between F s lp_lower lp_upper =
     (if vehicle_speed s \<le> speed lp_lower then f_of_int F (uint (lock lp_lower))
      else if vehicle_speed s \<ge> speed lp_upper then f_of_int F (uint (lock lp_upper))
      else if pedal_over F s then
        (let inter = f_div F (f_of_int F (uint (speed lp_upper) - uint (speed lp_lower)))
                             (f_of_int F (uint (vehicle_speed s) - uint (speed lp_lower)))
         in f_add F (f_of_int F (uint (lock lp_lower)))
                    (f_div F (f_of_int F (uint (lock lp_upper) - uint (lock lp_lower))) inter))
      else f_of_int F 0)"

definition get_lock_target_adjustment :: "'f float_ops \<Rightarrow> 'f state \<Rightarrow> error + 'f" where
  "get_lock_target_adjustment F s =
     (case lp_read (lockpoints s) 0 of
        Inl e \<Rightarrow> Inl e
      | Inr lp_lower \<Rightarrow>
          (case lp_read (lockpoints s) (uint (lockpoint_count s) - 1) of
             Inl e \<Rightarrow> Inl e
           | Inr lp_upper \<Rightarrow>
               (case scan_lockpoints (lockpoints s) (vehicle_speed s)
                       (uint (lockpoint_count s)) 0 (lp_lower, lp_upper) of
                  Inl e \<Rightarrow> Inl e
                | Inr (lo, up) \<Rightarrow> Inr (lock_between F s lo up))))"

text \<open>
  \<^verbatim>\<open>get_lock_target_adjusted_value\<close>: returns the byte and the state, since the
  interpolating branch stores the target in \<^verbatim>\<open>lock_target\<close>.
\<close>

definition get_lock_target_adjusted_value ::
  "'f float_ops \<Rightarrow> u8 \<Rightarrow> 'f state \<Rightarrow> error + u8 \<times> 'f state"
where
  "get_lock_target_adjusted_value F v s =
     (if mode s = MODE_5050 then
        (if pedal_over F s then Inr (v, s) else Inr (0, s))
      else
        (case get_lock_target_adjustment F s of
           Inl e \<Rightarrow> Inl e
         | Inr target \<Rightarrow>
             (let target' = f_add F (f_div F target (f_of_int F 2)) (f_of_int F 20)
              in Inr (f_to_u8 F (f_mul F (f_of_int F (uint v)) (f_div F target' (f_of_int F 100))),
                      s\<lparr>lock_target := target\<rparr>))))"

section \<open>Frame rewriting\<close>

text \<open>Statements of \<^verbatim>\<open>get_lock_data\<close> run in sequence; the first error ends the run.\<close>

fun in_sequence :: "('a \<Rightarrow> error + 'a) list \<Rightarrow> 'a \<Rightarrow> error + 'a" where
  "in_sequence [] x = Inr x"
| "in_sequence (c # cs) x = (case c x of Inl e \<Rightarrow> Inl e | Inr y \<Rightarrow> in_sequence cs y)"

text \<open>\<^verbatim>\<open>frame->data.bytes[k] = c;\<close>\<close>

definition put_byte :: "nat \<Rightarrow> u8 \<Rightarrow> can_frame \<times> 'f state \<Rightarrow> error + can_frame \<times> 'f state" where
  "put_byte k c = (\<lambda>(frame, s). Inr (frame\<lparr>data_bytes := (data_bytes frame)[k := c]\<rparr>, s))"

text \<open>\<^verbatim>\<open>frame->data.bytes[k] = get_lock_target_adjusted_value(base);\<close>\<close>

definition put_adjusted ::
  "'f float_ops \<Rightarrow> nat \<Rightarrow> u8 \<Rightarrow> can_frame \<times> 'f state \<Rightarrow> error + can_frame \<times> 'f state"
where
  "put_adjusted F k base =
     (\<lambda>(frame, s).
        case get_lock_target_adjusted_value F base s of
          Inl e \<Rightarrow> Inl e
        | Inr (v, s') \<Rightarrow> Inr (frame\<lparr>data_bytes := (data_bytes frame)[k := v]\<rparr>, s'))"

text \<open>The 32-bit views of the data union.\<close>

definition le_bytes :: "u32 \<Rightarrow> u8 list" where
  "le_bytes w = [ucast w, ucast (drop_bit 8 w), ucast (drop_bit 16 w), ucast (drop_bit 24 w)]"

definition le_word :: "u8 list \<Rightarrow> u32" where
  "le_word bs =
     ucast (bs ! 0) + push_bit 8 (ucast (bs ! 1)) + push_bit 16 (ucast (bs ! 2))
       + push_bit 24 (ucast (bs ! 3))"

definition get_data_high :: "u8 list \<Rightarrow> u32" where
  "get_data_high bs = le_word (drop 4 bs)"

definition set_data_high :: "u8 list \<Rightarrow> u32 \<Rightarrow> u8 list" where
  "set_data_high bs w = take 4 bs @ le_bytes w @ drop 8 bs"

definition set_data_low :: "u8 list \<Rightarrow> u32 \<Rightarrow> u8 list" where
  "set_data_low bs w = le_bytes w @ drop 4 bs"

text \<open>The \<^verbatim>\<open>BRAKES3_ID\<close> case: both words of the payload are rebuilt.\<close>

definition put_brakes3 ::
  "'f float_ops \<Rightarrow> can_frame \<times> 'f state \<Rightarrow> error + can_frame \<times> 'f state"
where
  "put_brakes3 F =
     (\<lambda>(frame, s).
        case get_lock_target_adjusted_value F 0xff s of
          Inl e \<Rightarrow> Inl e
        | Inr (adjusted_slip, s') \<Rightarrow>
            (let bs1 = set_data_high (data_bytes frame) (push_bit 24 0xa + push_bit 8 0xa);
                 bs2 = set_data_low bs1
                         (get_data_high bs1 + push_bit 16 (ucast adjusted_slip) + ucast adjusted_slip)
             in Inr (frame\<lparr>data_bytes := bs2\<rparr>, s')))"

definition get_lock_data ::
  "'f float_ops \<Rightarrow> can_frame \<Rightarrow> 'f state \<Rightarrow> error + can_frame \<times> 'f state"
where
  "get_lock_data F frame s =
     (if frame_id frame = MOTOR1_ID then
        in_sequence
          [put_byte 0 0,
           put_adjusted F 1 0xf0,
           put_byte 2 0x20,
           put_adjusted F 3 0x4e,
           put_adjusted F 4 0xf0,
           put_adjusted F 5 0xf0,
           put_byte 6 0x20,
           put_adjusted F 7 0xf0] (frame, s)
      else if frame_id frame = MOTOR3_ID then
        in_sequence [put_adjusted F 2 0xfa, put_adjusted F 7 0xfe] (frame, s)
      else if frame_id frame = MOTOR6_ID then
        in_sequence [put_adjusted F 1 0xfe, put_adjusted F 2 0xfe] (frame, s)
      else if frame_id frame = BRAKES3_ID then
        put_brakes3 F (frame, s)
      else if frame_id frame = BRAKES1_ID then
        in_sequence [put_byte 2 0x0, put_byte 3 0xa] (frame, s)
      else Inr (frame, s))"

section \<open>The receive callbacks\<close>

text \<open>\<^verbatim>\<open>haldex_callback\<close>: frames of the coupling unit go to the vehicle bus as they are.\<close>

definition haldex_callback :: "can_frame \<Rightarrow> tx list" where
  "haldex_callback incoming = [ToVehicle incoming]"

text \<open>
  The reply frames are locals of which only the listed bytes are assigned; the model
  keeps exactly those bytes, which are the ones the frame's length puts on the bus.
\<close>

definition send_interceptor_info :: "'f float_ops \<Rightarrow> 'f state \<Rightarrow> tx" where
  "send_interceptor_info F s =
     ToVehicle \<lparr>frame_id = INTERCEPTOR_INFO_ID, frame_length = 2,
                data_bytes = [f_to_u8 F (lock_target s), vehicle_speed s]\<rparr>"

text \<open>\<^verbatim>\<open>memset(&incoming->data, 0, incoming->length)\<close>; the union holds eight bytes.\<close>

definition memset_data :: "u8 list \<Rightarrow> nat \<Rightarrow> error + u8 list" where
  "memset_data bs n =
     (if n \<le> 8 then Inr (replicate n 0 @ drop n bs) else Inl (DataOverrun n))"

definition on_master_mode :: "'f float_ops \<Rightarrow> can_frame \<Rightarrow> 'f state \<Rightarrow> 'f state \<times> tx list" where
  "on_master_mode F incoming s =
     (let b = data_bytes incoming;
          s1 = s\<lparr>mode := b ! 0, ped_threshold := f_of_int F (uint (b ! 1))\<rparr>;
          s2 = (if b ! 0 = MODE_5050 then
                  (if pedal_over F s1 then s1\<lparr>lock_target := f_of_int F 100\<rparr>
                   else s1\<lparr>lock_target := f_of_int F 0\<rparr>)
                else if b ! 0 = MODE_FWD then s1\<lparr>lock_target := f_of_int F 0\<rparr>
                else s1)
      in (s2, [send_interceptor_info F s2]))"

definition on_master_data :: "can_frame \<Rightarrow> 'f state \<Rightarrow> 'f state \<times> tx list" where
  "on_master_data incoming s =
     (let b = data_bytes incoming;
          lockpoint_index = b ! 0
      in if unat lockpoint_index < NUM_LOCK_POINTS then
           (let i = unat lockpoint_index;
                tbl = lockpoints s
            in (s\<lparr>lockpoints :=
                     tbl[i := (tbl ! i)\<lparr>speed := b ! 1, lock := b ! 2, intensity := b ! 3\<rparr>],
                   lockpoint_rx := lockpoint_rx s OR push_bit i 1,
                   lockpoint_count := lockpoint_count s + 1\<rparr>, []))
         else (s, []))"

definition on_master_data_ctrl ::
  "'f float_ops \<Rightarrow> can_frame \<Rightarrow> 'f state \<Rightarrow> 'f state \<times> tx list"
where
  "on_master_data_ctrl F incoming s =
     (let cmd = data_bytes incoming ! 0
      in if cmd = DATA_CTRL_CHECK_LOCKPOINTS then
           (s, [ToVehicle
                  \<lparr>frame_id = INTERCEPTOR_DATA_CTRL_ID, frame_length = 3,
                   data_bytes =
                     [DATA_CTRL_CHECK_LOCKPOINTS,
                      ucast ((ucast (lockpoint_rx s) :: u32) AND 0xff),
                      ucast (push_bit 8 (ucast (lockpoint_rx s) :: u32) AND 0xff)]\<rparr>])
         else if cmd = DATA_CTRL_CLEAR then
           (s\<lparr>lockpoint_rx := 0, lockpoint_count := 0,
              lockpoints := replicate NUM_LOCK_POINTS lockpoint_zero\<rparr>, [])
         else if cmd = DATA_CTRL_CHECK_MODE then
           (s, [ToVehicle
                  \<lparr>frame_id = INTERCEPTOR_DATA_CTRL_ID, frame_length = 3,
                   data_bytes =
                     [DATA_CTRL_CHECK_MODE, mode s, f_to_u8 F (ped_threshold s)]\<rparr>])
         else (s, []))"

text \<open>The inner \<^verbatim>\<open>switch\<close> of the last branch: what the interceptor reads off car frames.\<close>

definition observe_car_frame ::
  "'f float_ops \<Rightarrow> can_frame \<Rightarrow> 'f state \<Rightarrow> error + can_frame \<times> 'f state"
where
  "observe_car_frame F incoming s =
     (if frame_id incoming = MOTOR1_ID then
        (let s1 = s\<lparr>ped_value := f_times_0_4 F (uint (data_bytes incoming ! 5))\<rparr>
         in if mode s1 = MODE_FWD then
              (case memset_data (data_bytes incoming) (unat (frame_length incoming)) of
                 Inl e \<Rightarrow> Inl e
               | Inr bs \<Rightarrow> Inr (incoming\<lparr>data_bytes := bs\<rparr>, s1))
            else Inr (incoming, s1))
      else if frame_id incoming = MOTOR2_ID then
        Inr (incoming,
             s\<lparr>vehicle_speed := word_of_int ((uint (data_bytes incoming ! 3) * 100 * 128) div 10000)\<rparr>)
      else Inr (incoming, s))"

definition can1_rx_callback ::
  "'f float_ops \<Rightarrow> can_frame \<Rightarrow> 'f state \<Rightarrow> error + 'f state \<times> tx list"
where
  "can1_rx_callback F incoming s =
     (if frame_id incoming = MASTER_MODE_ID then Inr (on_master_mode F incoming s)
      else if frame_id incoming = MASTER_DATA_ID then Inr (on_master_data incoming s)
      else if frame_id incoming = MASTER_DATA_CTRL_ID then Inr (on_master_data_ctrl F incoming s)
      else
        (case observe_car_frame F incoming s of
           Inl e \<Rightarrow> Inl e
         | Inr (frame1, s1) \<Rightarrow>
             (case (if mode s1 = MODE_5050 \<or> mode s1 = MODE_CUSTOM
                    then get_lock_data F frame1 s1 else Inr (frame1, s1)) of
                Inl e \<Rightarrow> Inl e
              | Inr (frame2, s2) \<Rightarrow> Inr (s2, [ToHaldex frame2]))))"

text \<open>
  The state after \<^verbatim>\<open>setup\<close>: the configuration is the image read from flash when there
  is one and zero otherwise; the other globals have their initialisers.
\<close>

definition startup :: "'f float_ops \<Rightarrow> (u8 \<times> 'f \<times> lockpoint list) option \<Rightarrow> 'f state" where
  "startup F saved =
     (case saved of
        None \<Rightarrow>
          \<lparr>mode = 0, ped_threshold = f_of_int F 0,
           lockpoints = replicate NUM_LOCK_POINTS lockpoint_zero,
           lockpoint_rx = 0, lockpoint_count = 0, vehicle_speed = 0,
           lock_target = f_of_int F 0, ped_value = f_of_int F 0\<rparr>
      | Some (m, thr, tbl) \<Rightarrow>
          \<lparr>mode = m, ped_threshold = thr, lockpoints = tbl,
           lockpoint_rx = 0, lockpoint_count = 0, vehicle_speed = 0,
           lock_target = f_of_int F 0, ped_value = f_of_int F 0\<rparr>)"

text \<open>A sequence of frames arriving on the vehicle bus, one callback each.\<close>

fun receive_all ::
  "'f float_ops \<Rightarrow> can_frame list \<Rightarrow> 'f state \<Rightarrow> error + 'f state \<times> tx list"
where
  "receive_all F [] s = Inr (s, [])"
| "receive_all F (fr # frs) s =
     (case can1_rx_callback F fr s of
        Inl e \<Rightarrow> Inl e
      | Inr (s1, out1) \<Rightarrow>
          (case receive_all F frs s1 of
             Inl e \<Rightarrow> Inl e
           | Inr (s2, out2) \<Rightarrow> Inr (s2, out1 @ out2)))"

section \<open>The interpolation as the specification words it\<close>

text \<open>
  The specification describes the choice of the two lockpoints by a search, not by a
  loop: \<open>upper\<close> is the first of the first \<open>n\<close> entries whose speed is at least the
  vehicle speed and \<open>lower\<close> is the entry before it, or \<open>upper\<close> itself when it is
  the first; when no entry qualifies, \<open>upper\<close> is entry \<open>n - 1\<close> and \<open>lower\<close> is
  entry 0. The pair returned is \<open>(lower, upper)\<close>.
\<close>

definition spec_bounds :: "lockpoint list \<Rightarrow> nat \<Rightarrow> u8 \<Rightarrow> lockpoint \<times> lockpoint" where
  "spec_bounds tbl n vs =
     (case List.find (\<lambda>k. vs \<le> speed (tbl ! k)) [0..<n] of
        Some k \<Rightarrow> (if k = 0 then tbl ! k else tbl ! (k - 1), tbl ! k)
      | None \<Rightarrow> (tbl ! 0, tbl ! (n - 1)))"

text \<open>
  The value the specification gives for the two lockpoints. Integer differences are
  converted to float where the source converts them.
\<close>

definition spec_interpolate :: "'f float_ops \<Rightarrow> 'f state \<Rightarrow> 'f" where
  "spec_interpolate F s =
     (let (lower, upper) =
            spec_bounds (lockpoints s) (unat (lockpoint_count s)) (vehicle_speed s)
      in if vehicle_speed s \<le> speed lower then f_of_int F (uint (lock lower))
         else if speed upper \<le> vehicle_speed s then f_of_int F (uint (lock upper))
         else if f_gt F (ped_value s) (ped_threshold s)
                 \<or> f_eq F (ped_threshold s) (f_of_int F 0)
         then f_add F (f_of_int F (uint (lock lower)))
                (f_div F (f_of_int F (uint (lock upper) - uint (lock lower)))
                   (f_div F (f_of_int F (uint (speed upper) - uint (speed lower)))
                            (f_of_int F (uint (vehicle_speed s) - uint (speed lower)))))
         else f_of_int F 0)"

section \<open>What the rewriter does to a payload\<close>

text \<open>
  The byte \<^verbatim>\<open>get_lock_target_adjusted_value(v)\<close> returns outside FiftyFifty mode, as
  a function of the interpolated target.
\<close>

definition custom_adjusted :: "'f float_ops \<Rightarrow> 'f \<Rightarrow> u8 \<Rightarrow> u8" where
  "custom_adjusted F target v =
     f_to_u8 F (f_mul F (f_of_int F (uint v))
                  (f_div F (f_add F (f_div F target (f_of_int F 2)) (f_of_int F 20))
                     (f_of_int F 100)))"

text \<open>
  The payload \<^verbatim>\<open>get_lock_data\<close> leaves when every call of
  \<^verbatim>\<open>get_lock_target_adjusted_value(b)\<close> returns \<open>g b\<close>; lemma
  \<open>get_lock_data_rewritten\<close> relates it to the code.
\<close>

definition rewritten :: "(u8 \<Rightarrow> u8) \<Rightarrow> u32 \<Rightarrow> u8 list \<Rightarrow> u8 list" where
  "rewritten g i bs =
     (if i = MOTOR1_ID then
        bs[0 := 0, 1 := g 0xf0, 2 := 0x20, 3 := g 0x4e, 4 := g 0xf0, 5 := g 0xf0,
           6 := 0x20, 7 := g 0xf0]
      else if i = MOTOR3_ID then bs[2 := g 0xfa, 7 := g 0xfe]
      else if i = MOTOR6_ID then bs[1 := g 0xfe, 2 := g 0xfe]
      else if i = BRAKES3_ID then
        (let bs1 = set_data_high bs (push_bit 24 0xa + push_bit 8 0xa)
         in set_data_low bs1
              (get_data_high bs1 + push_bit 16 (ucast (g 0xff)) + ucast (g 0xff)))
      else if i = BRAKES1_ID then bs[2 := 0x0, 3 := 0xa]
      else bs)"

text \<open>The byte offsets \<^verbatim>\<open>get_lock_data\<close> assigns, per identifier.\<close>

definition written_offsets :: "u32 \<Rightarrow> nat set" where
  "written_offsets i =
     (if i = MOTOR1_ID then {0, 1, 2, 3, 4, 5, 6, 7}
      else if i = MOTOR3_ID then {2, 7}
      else if i = MOTOR6_ID then {1, 2}
      else if i = BRAKES3_ID then {0, 1, 2, 3, 4, 5, 6, 7}
      else if i = BRAKES1_ID then {2, 3}
      else {})"

text \<open>The identifiers whose case calls \<^verbatim>\<open>get_lock_target_adjusted_value\<close>.\<close>

definition calls_adjusted :: "u32 \<Rightarrow> bool" where
  "calls_adjusted i \<longleftrightarrow> i = MOTOR1_ID \<or> i = MOTOR3_ID \<or> i = MOTOR6_ID \<or> i = BRAKES3_ID"

section \<open>Concrete inputs\<close>

text \<open>
  A Custom-mode state with three lockpoints (10 km/h: 20 %, 50 km/h: 60 %,
  100 km/h: 100 %), threshold 0, at 30 km/h.
\<close>

definition custom_state :: "rat state" where
  "custom_state =
     \<lparr>mode = 3, ped_threshold = 0,
      lockpoints =
        [\<lparr>speed = 10, lock = 20, intensity = 0\<rparr>,
         \<lparr>speed = 50, lock = 60, intensity = 0\<rparr>,
         \<lparr>speed = 100, lock = 100, intensity = 0\<rparr>,
         lockpoint_zero, lockpoint_zero, lockpoint_zero, lockpoint_zero,
         lockpoint_zero, lockpoint_zero, lockpoint_zero],
      lockpoint_rx = 7, lockpoint_count = 3, vehicle_speed = 30,
      lock_target = 0, ped_value = 0\<rparr>"

text \<open>A FiftyFifty state with threshold 50 and the pedal at 20, below the threshold.\<close>

definition fifty_state :: "rat state" where
  "fifty_state =
     \<lparr>mode = 2, ped_threshold = 50,
      lockpoints = replicate 10 lockpoint_zero,
      lockpoint_rx = 0, lockpoint_count = 0, vehicle_speed = 0,
      lock_target = 0, ped_value = 20\<rparr>"

definition frame_of :: "u32 \<Rightarrow> u8 \<Rightarrow> u8 list \<Rightarrow> can_frame" where
  "frame_of i n bs = \<lparr>frame_id = i, frame_length = n, data_bytes = bs\<rparr>"

section \<open>Basic facts\<close>

lemmas id_defs =
  HALDEX_ID_def BRAKES1_ID_def BRAKES3_ID_def MOTOR1_ID_def MOTOR2_ID_def MOTOR3_ID_def
  MOTOR6_ID_def INTERCEPTOR_INFO_ID_def INTERCEPTOR_DATA_CTRL_ID_def MASTER_MODE_ID_def
  MASTER_DATA_CTRL_ID_def MASTER_DATA_ID_def

lemmas mode_defs = MODE_STOCK_def MODE_FWD_def MODE_5050_def MODE_CUSTOM_def

lemmas ctrl_defs = DATA_CTRL_CHECK_LOCKPOINTS_def DATA_CTRL_CLEAR_def DATA_CTRL_CHECK_MODE_def

lemma lp_read_in_range:
  "0 \<le> i \<Longrightarrow> i < 10 \<Longrightarrow> length tbl = 10 \<Longrightarrow> lp_read tbl i = Inr (tbl ! nat i)"
  by (simp add: lp_read_def NUM_LOCK_POINTS_def)

lemma lockpoint_assign_all:
  "(lp :: lockpoint)\<lparr>speed := a, lock := b, intensity := c\<rparr> =
     \<lparr>speed = a, lock = b, intensity = c\<rparr>"
  by simp

lemma bit_or_one_shifted:
  "bit ((w :: u16) OR push_bit i 1) k \<longleftrightarrow> bit w k \<or> (k = i \<and> i < 16)"
  by (auto simp: bit_simps)

lemma bit_or_power_two:
  "bit ((w :: u16) OR 2 ^ i) k \<longleftrightarrow> bit w k \<or> (k = i \<and> i < 16)"
  using bit_or_one_shifted [of w i k] by simp

lemma low_byte_of_promoted:
  "(ucast ((ucast (w :: u16) :: u32) AND 0xff) :: u8) = ucast (w AND 0xff)"
proof -
  have m: "(0xff :: u32) = mask 8" "(0xff :: u16) = mask 8"
    by (simp_all add: mask_eq_exp_minus_1)
  show ?thesis unfolding m
    by (rule bit_word_eqI) (auto simp: bit_simps)
qed

lemma shifted_low_byte_zero:
  "(ucast (push_bit 8 (ucast (w :: u16) :: u32) AND 0xff) :: u8) = 0"
proof -
  have m: "(0xff :: u32) = mask 8"
    by (simp add: mask_eq_exp_minus_1)
  show ?thesis unfolding m
    by (rule bit_word_eqI) (auto simp: bit_simps)
qed

text \<open>Unfolding lists at numeral positions, for running the model on concrete inputs.\<close>

lemma replicate_pos: "0 < n \<Longrightarrow> replicate n x = x # replicate (n - 1) x"
  by (cases n) simp_all

lemma list_update_Cons_pos: "0 < n \<Longrightarrow> (x # xs)[n := y] = x # xs[n - 1 := y]"
  by (cases n) simp_all

lemmas list_numerals = replicate_pos list_update_Cons_pos


section \<open>The loop finds the first lockpoint at or above the vehicle speed\<close>

lemma scan_lockpoints_find:
  "0 \<le> i \<Longrightarrow> i \<le> n \<Longrightarrow> n \<le> 10 \<Longrightarrow> length tbl = 10 \<Longrightarrow>
   scan_lockpoints tbl vs n i d =
     Inr (case List.find (\<lambda>k. vs \<le> speed (tbl ! k)) [nat i..<nat n] of
            Some k \<Rightarrow> (if k = 0 then tbl ! k else tbl ! (k - 1), tbl ! k)
          | None \<Rightarrow> d)"
proof (induction tbl vs n i d rule: scan_lockpoints.induct)
  case (1 tbl vs n i lu)
  note unfold = scan_lockpoints.simps [of tbl vs n i lu]
  show ?case
  proof (cases "i < n")
    case False
    then have "nat n \<le> nat i" by simp
    then have "[nat i..<nat n] = []" by simp
    then show ?thesis using False by (simp add: unfold)
  next
    case True
    have rd: "lp_read tbl i = Inr (tbl ! nat i)"
      using True "1.prems" by (intro lp_read_in_range) auto
    have rd': "lp_read tbl (if i = 0 then 0 else i - 1) = Inr (tbl ! (nat i - 1))"
      using True "1.prems" by (simp add: lp_read_in_range nat_diff_distrib')
    have "nat i < nat n" "Suc (nat i) = nat (i + 1)"
      using True "1.prems" by simp_all
    then have upt: "[nat i..<nat n] = nat i # [nat (i + 1)..<nat n]"
      by (simp only: upt_conv_Cons)
    have step: "List.find (\<lambda>k. vs \<le> speed (tbl ! k)) [nat i..<nat n] =
                  (if vs \<le> speed (tbl ! nat i) then Some (nat i)
                   else List.find (\<lambda>k. vs \<le> speed (tbl ! k)) [nat (i + 1)..<nat n])"
      unfolding upt by simp
    show ?thesis
    proof (cases "vs \<le> speed (tbl ! nat i)")
      case hit: True
      have "nat i = 0 \<longleftrightarrow> i = 0" using "1.prems" by simp
      then show ?thesis
        using True hit by (simp add: unfold rd rd' step)
    next
      case miss: False
      have "scan_lockpoints tbl vs n (i + 1) lu =
              Inr (case List.find (\<lambda>k. vs \<le> speed (tbl ! k)) [nat (i + 1)..<nat n] of
                     Some k \<Rightarrow> (if k = 0 then tbl ! k else tbl ! (k - 1), tbl ! k)
                   | None \<Rightarrow> lu)"
        using True miss "1.prems" rd by (intro "1.IH") auto
      then show ?thesis
        using True miss by (simp add: unfold rd step)
    qed
  qed
qed

lemma adjustment_with_bounds:
  assumes "wf_table s"
    and "1 \<le> unat (lockpoint_count s)" and "unat (lockpoint_count s) \<le> NUM_LOCK_POINTS"
  shows "get_lock_target_adjustment F s =
           Inr (case spec_bounds (lockpoints s) (unat (lockpoint_count s)) (vehicle_speed s) of
                  (lo, up) \<Rightarrow> lock_between F s lo up)"
proof -
  define tbl where "tbl = lockpoints s"
  define n where "n = uint (lockpoint_count s)"
  have len: "length tbl = 10"
    using assms(1) by (simp add: wf_table_def NUM_LOCK_POINTS_def tbl_def)
  have un: "unat (lockpoint_count s) = nat n"
    by (simp add: n_def)
  have n10: "n \<le> 10" "1 \<le> n"
    using assms(2,3) by (simp_all add: NUM_LOCK_POINTS_def un)
  have r0: "lp_read tbl 0 = Inr (tbl ! 0)"
    using len by (simp add: lp_read_in_range)
  have "nat (n - 1) = nat n - 1" using n10 by simp
  then have r1: "lp_read tbl (n - 1) = Inr (tbl ! (nat n - 1))"
    using len n10 lp_read_in_range [of "n - 1" tbl] by simp
  obtain lo up where lu: "spec_bounds tbl (nat n) (vehicle_speed s) = (lo, up)"
    by (cases "spec_bounds tbl (nat n) (vehicle_speed s)")
  have "scan_lockpoints tbl (vehicle_speed s) n 0 (tbl ! 0, tbl ! (nat n - 1)) =
          Inr (spec_bounds tbl (nat n) (vehicle_speed s))"
    using len n10
      scan_lockpoints_find [of 0 n tbl "vehicle_speed s" "(tbl ! 0, tbl ! (nat n - 1))"]
    by (simp add: spec_bounds_def)
  then have sc:
    "scan_lockpoints tbl (vehicle_speed s) n 0 (tbl ! 0, tbl ! (nat n - 1)) = Inr (lo, up)"
    by (simp add: lu)
  have "get_lock_target_adjustment F s = Inr (lock_between F s lo up)"
    unfolding get_lock_target_adjustment_def tbl_def [symmetric] n_def [symmetric]
    using sc by (simp add: r0 r1)
  then show ?thesis
    unfolding tbl_def [symmetric] un by (simp add: lu)
qed

text \<open>
  C1: with at least one and at most \<open>NUM_LOCK_POINTS\<close> lockpoints counted, in
  non-decreasing speed order, \<^verbatim>\<open>get_lock_target_adjustment\<close> returns the value the
  specification describes: \<open>upper\<close> is the first counted entry whose speed is at least
  the vehicle speed, \<open>lower\<close> the one before it (or \<open>upper\<close> itself, or entries
  \<open>n - 1\<close> and 0 when none qualifies); the result is \<open>lower.lock\<close> at or below
  \<open>lower.speed\<close>, \<open>upper.lock\<close> at or above \<open>upper.speed\<close>, and between them the
  interpolated value when the pedal condition holds and 0 when it does not. In particular
  the result is the first lockpoint's lock at or below the first lockpoint's speed. The
  order of the speeds is assumed as the claim assumes it; the proof does not need it.
\<close>

theorem interpolation_matches_spec:
  assumes "wf_table s"
    and "1 \<le> unat (lockpoint_count s)" and "unat (lockpoint_count s) \<le> NUM_LOCK_POINTS"
    and "sorted (map speed (take (unat (lockpoint_count s)) (lockpoints s)))"
  shows "get_lock_target_adjustment F s = Inr (spec_interpolate F s)
       \<and> (vehicle_speed s \<le> speed (lockpoints s ! 0) \<longrightarrow>
            get_lock_target_adjustment F s = Inr (f_of_int F (uint (lock (lockpoints s ! 0)))))"
proof -
  let ?b = "spec_bounds (lockpoints s) (unat (lockpoint_count s)) (vehicle_speed s)"
  obtain lo up where lu: "?b = (lo, up)"
    by (cases ?b)
  have code: "get_lock_target_adjustment F s = Inr (lock_between F s lo up)"
    using adjustment_with_bounds [OF assms(1-3), of F] by (simp add: lu)
  have spec: "spec_interpolate F s = lock_between F s lo up"
    by (simp add: spec_interpolate_def lu lock_between_def pedal_over_def)
  have first: "get_lock_target_adjustment F s = Inr (f_of_int F (uint (lock (lockpoints s ! 0))))"
    if le: "vehicle_speed s \<le> speed (lockpoints s ! 0)"
  proof -
    have "0 < unat (lockpoint_count s)" using assms(2) by simp
    then have "[0..<unat (lockpoint_count s)] = 0 # [Suc 0..<unat (lockpoint_count s)]"
      by (simp only: upt_conv_Cons)
    then have "?b = (lockpoints s ! 0, lockpoints s ! 0)"
      using le by (simp add: spec_bounds_def)
    then have "lo = lockpoints s ! 0" using lu by simp
    then show ?thesis using le by (simp add: code lock_between_def)
  qed
  show ?thesis using code spec first by simp
qed

theorem interpolation_matches_spec_witness:
  "wf_table custom_state
   \<and> 1 \<le> unat (lockpoint_count custom_state)
   \<and> unat (lockpoint_count custom_state) \<le> NUM_LOCK_POINTS
   \<and> sorted (map speed (take (unat (lockpoint_count custom_state)) (lockpoints custom_state)))
   \<and> get_lock_target_adjustment exact_ops custom_state = Inr 40
   \<and> get_lock_target_adjustment exact_ops (custom_state\<lparr>vehicle_speed := 5\<rparr>) = Inr 20"
proof -
  let ?slow = "custom_state\<lparr>vehicle_speed := 5\<rparr>"
  have w: "wf_table custom_state" "wf_table ?slow"
    by (simp_all add: wf_table_def custom_state_def NUM_LOCK_POINTS_def)
  have c: "1 \<le> unat (lockpoint_count custom_state)"
          "unat (lockpoint_count custom_state) \<le> NUM_LOCK_POINTS"
    and c': "1 \<le> unat (lockpoint_count ?slow)" "unat (lockpoint_count ?slow) \<le> NUM_LOCK_POINTS"
    by (simp_all add: custom_state_def NUM_LOCK_POINTS_def)
  have srt: "sorted (map speed (take (unat (lockpoint_count custom_state)) (lockpoints custom_state)))"
    and srt': "sorted (map speed (take (unat (lockpoint_count ?slow)) (lockpoints ?slow)))"
    by (simp_all add: custom_state_def)
  have v: "spec_interpolate exact_ops custom_state = 40"
    by code_simp
  have f: "vehicle_speed ?slow \<le> speed (lockpoints ?slow ! 0)"
    and g: "f_of_int exact_ops (uint (lock (lockpoints ?slow ! 0))) = 20"
    by (simp_all add: custom_state_def exact_ops_def)
  have a: "get_lock_target_adjustment exact_ops custom_state = Inr 40"
    using interpolation_matches_spec [OF w(1) c srt, of exact_ops, THEN conjunct1]
    by (simp only: v)
  have b: "get_lock_target_adjustment exact_ops ?slow = Inr 20"
    using interpolation_matches_spec [OF w(2) c' srt', of exact_ops, THEN conjunct2, rule_format, OF f]
    by (simp only: g)
  show ?thesis using w(1) c srt a b by simp
qed

section \<open>FiftyFifty mode, Forward mode and the configuration protocol\<close>

text \<open>
  C5: in FiftyFifty mode \<^verbatim>\<open>get_lock_target_adjusted_value(v)\<close> returns \<open>v\<close> when
  the pedal value exceeds the threshold or the threshold is 0, and 0 otherwise, for
  every byte \<open>v\<close>; the state it returns is the state it was given.
\<close>

theorem fiftyfifty_adjusted_value:
  "mode s = MODE_5050 \<Longrightarrow>
   get_lock_target_adjusted_value F v s =
     Inr (if f_gt F (ped_value s) (ped_threshold s) \<or> f_eq F (ped_threshold s) (f_of_int F 0)
          then v else 0, s)"
  by (simp add: get_lock_target_adjusted_value_def pedal_over_def)

theorem fiftyfifty_adjusted_value_witness:
  "mode fifty_state = MODE_5050
   \<and> get_lock_target_adjusted_value exact_ops 0xF0 fifty_state = Inr (0, fifty_state)
   \<and> get_lock_target_adjusted_value exact_ops 0xF0 (fifty_state\<lparr>ped_value := 80\<rparr>) =
         Inr (0xF0, fifty_state\<lparr>ped_value := 80\<rparr>)
   \<and> get_lock_target_adjusted_value exact_ops 0xF0 (fifty_state\<lparr>ped_threshold := 0\<rparr>) =
         Inr (0xF0, fifty_state\<lparr>ped_threshold := 0\<rparr>)"
  using fiftyfifty_adjusted_value [where s = fifty_state and F = exact_ops and v = "0xF0"]
    fiftyfifty_adjusted_value
      [where s = "fifty_state\<lparr>ped_value := 80\<rparr>" and F = exact_ops and v = "0xF0"]
    fiftyfifty_adjusted_value
      [where s = "fifty_state\<lparr>ped_threshold := 0\<rparr>" and F = exact_ops and v = "0xF0"]
  by (simp add: fifty_state_def exact_ops_def mode_defs)

text \<open>
  C6: a frame with identifier 0x280 received in Forward mode, with at most eight data
  bytes, is relayed to the coupling unit with its first \<open>frame_length\<close> bytes zero,
  whatever they were; \<^verbatim>\<open>ped_value\<close> is set from the original byte 5 times 0.4 and
  nothing else in the state changes.
\<close>

theorem forward_zeroes_motor1_payload:
  assumes "frame_id fr = MOTOR1_ID" and "mode s = MODE_FWD" and "wf_frame fr"
  shows "can1_rx_callback F fr s =
           Inr (s\<lparr>ped_value := f_times_0_4 F (uint (data_bytes fr ! 5))\<rparr>,
                [ToHaldex (fr\<lparr>data_bytes := replicate (unat (frame_length fr)) 0
                                   @ drop (unat (frame_length fr)) (data_bytes fr)\<rparr>)])
         \<and> (\<forall>k < unat (frame_length fr).
               (replicate (unat (frame_length fr)) 0
                  @ drop (unat (frame_length fr)) (data_bytes fr)) ! k = 0)"
  using assms
  by (simp add: can1_rx_callback_def observe_car_frame_def memset_data_def wf_frame_def
      id_defs mode_defs nth_append)

theorem forward_zeroes_motor1_payload_witness:
  "frame_id (frame_of 0x280 8 [1, 2, 3, 4, 5, 6, 7, 8]) = MOTOR1_ID
   \<and> mode (custom_state\<lparr>mode := 1\<rparr>) = MODE_FWD
   \<and> wf_frame (frame_of 0x280 8 [1, 2, 3, 4, 5, 6, 7, 8])
   \<and> can1_rx_callback exact_ops (frame_of 0x280 8 [1, 2, 3, 4, 5, 6, 7, 8])
        (custom_state\<lparr>mode := 1\<rparr>) =
        Inr (custom_state\<lparr>mode := 1, ped_value := 12 / 5\<rparr>,
             [ToHaldex (frame_of 0x280 8 [0, 0, 0, 0, 0, 0, 0, 0])])"
  using forward_zeroes_motor1_payload
          [where fr = "frame_of 0x280 8 [1, 2, 3, 4, 5, 6, 7, 8]"
             and s = "custom_state\<lparr>mode := 1\<rparr>" and F = exact_ops]
  by (simp add: frame_of_def custom_state_def exact_ops_def wf_frame_def id_defs mode_defs
      list_numerals)

text \<open>
  C7: a master-data frame (0x7FF) whose index byte is below 10 writes the lockpoint at
  that index from bytes 1 to 3, sets that bit of the reception mask (and no other) and
  adds one to the 8-bit reception counter (which is a plain successor below 255);
  nothing else changes and nothing is sent. With an index of 10 or more the state is
  unchanged and nothing is sent.
\<close>

theorem master_data_frame_effect:
  assumes "frame_id fr = MASTER_DATA_ID" and "wf_table s"
  shows "(unat (data_bytes fr ! 0) < 10 \<longrightarrow>
            can1_rx_callback F fr s =
              Inr (s\<lparr>lockpoints :=
                       (lockpoints s)[unat (data_bytes fr ! 0) :=
                          \<lparr>speed = data_bytes fr ! 1, lock = data_bytes fr ! 2,
                           intensity = data_bytes fr ! 3\<rparr>],
                     lockpoint_rx := lockpoint_rx s OR push_bit (unat (data_bytes fr ! 0)) 1,
                     lockpoint_count := lockpoint_count s + 1\<rparr>, [])
            \<and> (lockpoints s)[unat (data_bytes fr ! 0) :=
                    \<lparr>speed = data_bytes fr ! 1, lock = data_bytes fr ! 2,
                     intensity = data_bytes fr ! 3\<rparr>] ! unat (data_bytes fr ! 0) =
                  \<lparr>speed = data_bytes fr ! 1, lock = data_bytes fr ! 2,
                   intensity = data_bytes fr ! 3\<rparr>
            \<and> (\<forall>k. bit (lockpoint_rx s OR push_bit (unat (data_bytes fr ! 0)) 1) k \<longleftrightarrow>
                      bit (lockpoint_rx s) k \<or> k = unat (data_bytes fr ! 0))
            \<and> (unat (lockpoint_count s) < 255 \<longrightarrow>
                  unat (lockpoint_count s + 1) = unat (lockpoint_count s) + 1))
       \<and> (10 \<le> unat (data_bytes fr ! 0) \<longrightarrow> can1_rx_callback F fr s = Inr (s, []))"
proof -
  have cb: "can1_rx_callback F fr s = Inr (on_master_data fr s)"
    using assms(1) by (simp add: can1_rx_callback_def id_defs)
  have inc: "unat (lockpoint_count s) < 255 \<longrightarrow>
               unat (lockpoint_count s + 1) = unat (lockpoint_count s) + 1"
    by (simp add: unat_word_ariths)
  have valid: "can1_rx_callback F fr s =
              Inr (s\<lparr>lockpoints :=
                       (lockpoints s)[unat (data_bytes fr ! 0) :=
                          \<lparr>speed = data_bytes fr ! 1, lock = data_bytes fr ! 2,
                           intensity = data_bytes fr ! 3\<rparr>],
                     lockpoint_rx := lockpoint_rx s OR push_bit (unat (data_bytes fr ! 0)) 1,
                     lockpoint_count := lockpoint_count s + 1\<rparr>, [])"
    and stored: "(lockpoints s)[unat (data_bytes fr ! 0) :=
                    \<lparr>speed = data_bytes fr ! 1, lock = data_bytes fr ! 2,
                     intensity = data_bytes fr ! 3\<rparr>] ! unat (data_bytes fr ! 0) =
                  \<lparr>speed = data_bytes fr ! 1, lock = data_bytes fr ! 2,
                   intensity = data_bytes fr ! 3\<rparr>"
    and bits: "\<forall>k. bit (lockpoint_rx s OR push_bit (unat (data_bytes fr ! 0)) 1) k \<longleftrightarrow>
                      bit (lockpoint_rx s) k \<or> k = unat (data_bytes fr ! 0)"
    if lt: "unat (data_bytes fr ! 0) < 10"
  proof -
    have len: "unat (data_bytes fr ! 0) < length (lockpoints s)"
      using lt assms(2) by (simp add: wf_table_def NUM_LOCK_POINTS_def)
    show "can1_rx_callback F fr s =
              Inr (s\<lparr>lockpoints :=
                       (lockpoints s)[unat (data_bytes fr ! 0) :=
                          \<lparr>speed = data_bytes fr ! 1, lock = data_bytes fr ! 2,
                           intensity = data_bytes fr ! 3\<rparr>],
                     lockpoint_rx := lockpoint_rx s OR push_bit (unat (data_bytes fr ! 0)) 1,
                     lockpoint_count := lockpoint_count s + 1\<rparr>, [])"
      using lt
      by (simp add: cb on_master_data_def NUM_LOCK_POINTS_def Let_def lockpoint_assign_all)
    show "(lockpoints s)[unat (data_bytes fr ! 0) :=
                    \<lparr>speed = data_bytes fr ! 1, lock = data_bytes fr ! 2,
                     intensity = data_bytes fr ! 3\<rparr>] ! unat (data_bytes fr ! 0) =
                  \<lparr>speed = data_bytes fr ! 1, lock = data_bytes fr ! 2,
                   intensity = data_bytes fr ! 3\<rparr>"
      using len by simp
    show "\<forall>k. bit (lockpoint_rx s OR push_bit (unat (data_bytes fr ! 0)) 1) k \<longleftrightarrow>
                      bit (lockpoint_rx s) k \<or> k = unat (data_bytes fr ! 0)"
      using lt by (simp add: bit_or_one_shifted bit_or_power_two)
  qed
  have invalid: "can1_rx_callback F fr s = Inr (s, [])" if "10 \<le> unat (data_bytes fr ! 0)"
    using that by (simp add: cb on_master_data_def NUM_LOCK_POINTS_def)
  show ?thesis
    using valid stored bits inc invalid by blast
qed

theorem master_data_frame_effect_witness:
  "frame_id (frame_of 0x7FF 4 [3, 40, 60, 0, 0, 0, 0, 0]) = MASTER_DATA_ID
   \<and> wf_table fifty_state
   \<and> can1_rx_callback exact_ops (frame_of 0x7FF 4 [3, 40, 60, 0, 0, 0, 0, 0]) fifty_state =
        Inr (fifty_state
               \<lparr>lockpoints :=
                  [lockpoint_zero, lockpoint_zero, lockpoint_zero,
                   \<lparr>speed = 40, lock = 60, intensity = 0\<rparr>,
                   lockpoint_zero, lockpoint_zero, lockpoint_zero, lockpoint_zero,
                   lockpoint_zero, lockpoint_zero],
                lockpoint_rx := 8, lockpoint_count := 1\<rparr>, [])
   \<and> can1_rx_callback exact_ops (frame_of 0x7FF 4 [10, 40, 60, 0, 0, 0, 0, 0]) fifty_state =
        Inr (fifty_state, [])"
  using master_data_frame_effect
          [where fr = "frame_of 0x7FF 4 [3, 40, 60, 0, 0, 0, 0, 0]" and s = fifty_state
             and F = exact_ops]
        master_data_frame_effect
          [where fr = "frame_of 0x7FF 4 [10, 40, 60, 0, 0, 0, 0, 0]" and s = fifty_state
             and F = exact_ops]
  by (simp add: frame_of_def fifty_state_def wf_table_def NUM_LOCK_POINTS_def id_defs
      list_numerals)

text \<open>
  C8: the Clear sub-command (0x7FE, byte 0 = 1) sets the reception mask and the
  reception counter to 0 and every one of the ten lockpoints to zero, in every state;
  mode, pedal threshold, vehicle speed, pedal value and lock target keep their values,
  and nothing is sent.
\<close>

theorem clear_resets_lockpoints:
  assumes "frame_id fr = MASTER_DATA_CTRL_ID" and "data_bytes fr ! 0 = DATA_CTRL_CLEAR"
  shows "can1_rx_callback F fr s =
     Inr (\<lparr>mode = mode s, ped_threshold = ped_threshold s,
           lockpoints = replicate 10 lockpoint_zero,
           lockpoint_rx = 0, lockpoint_count = 0, vehicle_speed = vehicle_speed s,
           lock_target = lock_target s, ped_value = ped_value s\<rparr>, [])"
  using assms
  by (simp add: can1_rx_callback_def on_master_data_ctrl_def id_defs ctrl_defs NUM_LOCK_POINTS_def)

theorem clear_resets_lockpoints_witness:
  "frame_id (frame_of 0x7FE 1 [1, 0, 0, 0, 0, 0, 0, 0]) = MASTER_DATA_CTRL_ID
   \<and> data_bytes (frame_of 0x7FE 1 [1, 0, 0, 0, 0, 0, 0, 0]) ! 0 = DATA_CTRL_CLEAR
   \<and> can1_rx_callback exact_ops (frame_of 0x7FE 1 [1, 0, 0, 0, 0, 0, 0, 0]) custom_state =
        Inr (\<lparr>mode = 3, ped_threshold = 0, lockpoints = replicate 10 lockpoint_zero,
              lockpoint_rx = 0, lockpoint_count = 0, vehicle_speed = 30,
              lock_target = 0, ped_value = 0\<rparr>, [])"
  using clear_resets_lockpoints
          [where fr = "frame_of 0x7FE 1 [1, 0, 0, 0, 0, 0, 0, 0]" and F = exact_ops
             and s = custom_state]
  by (simp add: frame_of_def custom_state_def id_defs ctrl_defs)

text \<open>
  C9: the CheckLockpoints sub-command (0x7FE, byte 0 = 0) sends one frame to the
  vehicle bus, with identifier 0x7FC and length 3: byte 0 is 0, byte 1 is the low byte
  of the reception mask, byte 2 is \<^verbatim>\<open>(mask << 8) & 0xff\<close>, which is 0 for every value
  of the 16-bit mask. The state is unchanged.
\<close>

theorem check_lockpoints_reply:
  assumes "frame_id fr = MASTER_DATA_CTRL_ID"
    and "data_bytes fr ! 0 = DATA_CTRL_CHECK_LOCKPOINTS"
  shows "can1_rx_callback F fr s =
     Inr (s, [ToVehicle \<lparr>frame_id = 0x7FC, frame_length = 3,
                data_bytes = [0, ucast (lockpoint_rx s AND 0xff),
                              ucast (push_bit 8 (ucast (lockpoint_rx s) :: u32) AND 0xff)]\<rparr>])
     \<and> (ucast (push_bit 8 (ucast (lockpoint_rx s) :: u32) AND 0xff) :: u8) = 0"
  using assms
  by (simp add: can1_rx_callback_def on_master_data_ctrl_def id_defs ctrl_defs
      low_byte_of_promoted shifted_low_byte_zero)

theorem check_lockpoints_reply_witness:
  "frame_id (frame_of 0x7FE 1 [0, 0, 0, 0, 0, 0, 0, 0]) = MASTER_DATA_CTRL_ID
   \<and> data_bytes (frame_of 0x7FE 1 [0, 0, 0, 0, 0, 0, 0, 0]) ! 0 = DATA_CTRL_CHECK_LOCKPOINTS
   \<and> can1_rx_callback exact_ops (frame_of 0x7FE 1 [0, 0, 0, 0, 0, 0, 0, 0])
        (custom_state\<lparr>lockpoint_rx := 0x3FF\<rparr>) =
        Inr (custom_state\<lparr>lockpoint_rx := 0x3FF\<rparr>,
             [ToVehicle (frame_of 0x7FC 3 [0, 0xFF, 0])])"
  using check_lockpoints_reply
          [where fr = "frame_of 0x7FE 1 [0, 0, 0, 0, 0, 0, 0, 0]" and F = exact_ops
             and s = "custom_state\<lparr>lockpoint_rx := 0x3FF\<rparr>"]
  by (simp add: frame_of_def custom_state_def id_defs ctrl_defs)

section \<open>The rewriter\<close>

lemma get_lock_data_rewritten:
  assumes step: "\<And>k b fr. put_adjusted F k b (fr, s) =
                    Inr (fr\<lparr>data_bytes := (data_bytes fr)[k := g b]\<rparr>, s')"
    and step': "\<And>k b fr. put_adjusted F k b (fr, s') =
                    Inr (fr\<lparr>data_bytes := (data_bytes fr)[k := g b]\<rparr>, s')"
    and slip: "get_lock_target_adjusted_value F 0xff s = Inr (g 0xff, s')"
  shows "get_lock_data F fr s =
           Inr (fr\<lparr>data_bytes := rewritten g (frame_id fr) (data_bytes fr)\<rparr>,
                if calls_adjusted (frame_id fr) then s' else s)"
  by (simp add: get_lock_data_def rewritten_def calls_adjusted_def put_byte_def put_brakes3_def
      step step' slip Let_def id_defs)

lemma adjustment_ignores_lock_target:
  "get_lock_target_adjustment F (s\<lparr>lock_target := t\<rparr>) = get_lock_target_adjustment F s"
proof -
  have lb: "lock_between F (s\<lparr>lock_target := t\<rparr>) lo up = lock_between F s lo up" for lo up
    by (simp add: lock_between_def pedal_over_def)
  show ?thesis
    by (simp add: get_lock_target_adjustment_def lb cong: sum.case_cong prod.case_cong)
qed

lemma get_lock_data_5050:
  assumes "mode s = MODE_5050"
  shows "get_lock_data F fr s =
           Inr (fr\<lparr>data_bytes :=
                      rewritten (\<lambda>b. if pedal_over F s then b else 0) (frame_id fr) (data_bytes fr)\<rparr>,
                s)"
  using assms
    get_lock_data_rewritten [where F = F and s = s and s' = s
      and g = "\<lambda>b. if pedal_over F s then b else 0" and fr = fr]
  by (simp add: put_adjusted_def get_lock_target_adjusted_value_def)

lemma get_lock_data_custom:
  assumes "mode s \<noteq> MODE_5050" and "get_lock_target_adjustment F s = Inr t"
  shows "get_lock_data F fr s =
           Inr (fr\<lparr>data_bytes := rewritten (custom_adjusted F t) (frame_id fr) (data_bytes fr)\<rparr>,
                if calls_adjusted (frame_id fr) then s\<lparr>lock_target := t\<rparr> else s)"
  using assms
    get_lock_data_rewritten [where F = F and s = s and s' = "s\<lparr>lock_target := t\<rparr>"
      and g = "custom_adjusted F t" and fr = fr]
  by (simp add: put_adjusted_def get_lock_target_adjusted_value_def custom_adjusted_def
      adjustment_ignores_lock_target Let_def)

lemma length_le_bytes: "length (le_bytes w) = 4"
  by (simp add: le_bytes_def)

lemma rewritten_length: "length bs = 8 \<Longrightarrow> length (rewritten g i bs) = 8"
  by (simp add: rewritten_def set_data_low_def set_data_high_def length_le_bytes Let_def)

lemma rewritten_elsewhere:
  "k \<notin> written_offsets i \<Longrightarrow> k < 8 \<Longrightarrow> rewritten g i bs ! k = bs ! k"
  by (auto simp: rewritten_def written_offsets_def split: if_splits)

lemma rewritten_other_id: "written_offsets i = {} \<Longrightarrow> rewritten g i bs = bs"
  by (auto simp: rewritten_def written_offsets_def split: if_splits)

lemma rewritten_motor1_fixed:
  "length bs = 8 \<Longrightarrow>
   rewritten g MOTOR1_ID bs ! 0 = 0 \<and> rewritten g MOTOR1_ID bs ! 2 = 0x20
   \<and> rewritten g MOTOR1_ID bs ! 6 = 0x20"
  by (simp add: rewritten_def)


lemma observe_car_frame_not_forward:
  assumes "mode s \<noteq> MODE_FWD"
  shows "\<exists>s1. observe_car_frame F fr s = Inr (fr, s1) \<and> mode s1 = mode s
           \<and> lockpoints s1 = lockpoints s \<and> lockpoint_count s1 = lockpoint_count s"
  using assms by (simp add: observe_car_frame_def Let_def)

text \<open>
  C3, as the code has it: a frame with identifier 0x1A0 is relayed with byte 2 set to
  0x00 and byte 3 set to 0x0A when the mode is FiftyFifty or Custom, whatever the pedal
  condition and the lock target are; in every other mode (Stock and Forward among
  them) it is relayed as received. The state is unchanged in both cases.
\<close>

theorem brakes1_fixed_bytes:
  assumes "frame_id fr = BRAKES1_ID" and "wf_frame fr"
  shows "can1_rx_callback F fr s =
           Inr (s, [ToHaldex (if mode s = MODE_5050 \<or> mode s = MODE_CUSTOM
                              then fr\<lparr>data_bytes := (data_bytes fr)[2 := 0, 3 := 0xA]\<rparr>
                              else fr)])
         \<and> (data_bytes fr)[2 := 0, 3 := 0xA] ! 2 = 0
         \<and> (data_bytes fr)[2 := 0, 3 := 0xA] ! 3 = 0xA"
  using assms
  by (simp add: can1_rx_callback_def observe_car_frame_def get_lock_data_def put_byte_def
      wf_frame_def id_defs)

theorem brakes1_fixed_bytes_witness:
  "frame_id (frame_of 0x1A0 8 [1, 2, 3, 4, 5, 6, 7, 8]) = BRAKES1_ID
   \<and> wf_frame (frame_of 0x1A0 8 [1, 2, 3, 4, 5, 6, 7, 8])
   \<and> can1_rx_callback exact_ops (frame_of 0x1A0 8 [1, 2, 3, 4, 5, 6, 7, 8]) custom_state =
        Inr (custom_state, [ToHaldex (frame_of 0x1A0 8 [1, 2, 0, 0xA, 5, 6, 7, 8])])
   \<and> can1_rx_callback exact_ops (frame_of 0x1A0 8 [1, 2, 3, 4, 5, 6, 7, 8]) fifty_state =
        Inr (fifty_state, [ToHaldex (frame_of 0x1A0 8 [1, 2, 0, 0xA, 5, 6, 7, 8])])
   \<and> can1_rx_callback exact_ops (frame_of 0x1A0 8 [1, 2, 3, 4, 5, 6, 7, 8])
        (custom_state\<lparr>mode := 1\<rparr>) =
        Inr (custom_state\<lparr>mode := 1\<rparr>, [ToHaldex (frame_of 0x1A0 8 [1, 2, 3, 4, 5, 6, 7, 8])])"
  using brakes1_fixed_bytes
          [where fr = "frame_of 0x1A0 8 [1, 2, 3, 4, 5, 6, 7, 8]" and F = exact_ops
             and s = custom_state]
        brakes1_fixed_bytes
          [where fr = "frame_of 0x1A0 8 [1, 2, 3, 4, 5, 6, 7, 8]" and F = exact_ops
             and s = fifty_state]
        brakes1_fixed_bytes
          [where fr = "frame_of 0x1A0 8 [1, 2, 3, 4, 5, 6, 7, 8]" and F = exact_ops
             and s = "custom_state\<lparr>mode := 1\<rparr>"]
  by (simp add: frame_of_def custom_state_def fifty_state_def wf_frame_def id_defs mode_defs
      list_numerals)

text \<open>
  C3 as stated fails: in Stock mode, the mode after a first start, the frame reaches the
  coupling-unit bus with bytes 2 and 3 as received.
\<close>

theorem brakes1_untouched_in_stock_mode:
  "can1_rx_callback exact_ops (frame_of 0x1A0 8 [1, 2, 3, 4, 5, 6, 7, 8])
     (startup exact_ops None) =
     Inr (startup exact_ops None, [ToHaldex (frame_of 0x1A0 8 [1, 2, 3, 4, 5, 6, 7, 8])])
   \<and> mode (startup exact_ops None) = MODE_STOCK
   \<and> data_bytes (frame_of 0x1A0 8 [1, 2, 3, 4, 5, 6, 7, 8]) ! 2 \<noteq> 0x00
   \<and> data_bytes (frame_of 0x1A0 8 [1, 2, 3, 4, 5, 6, 7, 8]) ! 3 \<noteq> 0x0A"
  by (simp add: can1_rx_callback_def observe_car_frame_def frame_of_def startup_def id_defs
      mode_defs)

lemma get_lock_data_no_call:
  assumes "\<not> calls_adjusted (frame_id fr)"
  shows "get_lock_data F fr s =
           Inr (fr\<lparr>data_bytes := rewritten g (frame_id fr) (data_bytes fr)\<rparr>, s)"
  using assms
  by (simp add: get_lock_data_def rewritten_def calls_adjusted_def put_byte_def)

text \<open>
  C4, as the code has it: in FiftyFifty or Custom mode, a frame that is not one of the
  three master frames and has eight data bytes is relayed with its identifier and
  length, and with every byte outside \<open>written_offsets\<close> of its identifier, unchanged:
  offsets 2 and 7 for 0x380, 1 and 2 for 0x488, 2 and 3 for 0x1A0, all eight for 0x280
  and 0x4A0, none for any other identifier. For 0x280 the offsets 0, 2 and 6, which
  receive no adjusted value, are set to 0x00, 0x20 and 0x20. Only for the four
  identifiers whose case calls \<^verbatim>\<open>get_lock_target_adjusted_value\<close> (0x280, 0x380,
  0x488, 0x4A0), and only in Custom mode, is the number of counted lockpoints assumed
  to lie between 1 and \<open>NUM_LOCK_POINTS\<close>; every other frame is covered in every
  state, the one after a power cycle included. The relayed payload is \<open>rewritten g\<close>
  of the received one; where the table reads are in range, \<open>g b\<close> is the byte
  \<^verbatim>\<open>get_lock_target_adjusted_value(b)\<close> returns in the state the callback leaves.
\<close>

theorem rewriter_leaves_other_bytes:
  assumes md: "mode s = MODE_5050 \<or> mode s = MODE_CUSTOM"
    and nm: "frame_id fr \<noteq> MASTER_MODE_ID" "frame_id fr \<noteq> MASTER_DATA_ID"
            "frame_id fr \<noteq> MASTER_DATA_CTRL_ID"
    and wf: "wf_frame fr"
    and tb: "mode s = MODE_CUSTOM \<and> calls_adjusted (frame_id fr) \<longrightarrow>
               wf_table s \<and> 1 \<le> unat (lockpoint_count s)
               \<and> unat (lockpoint_count s) \<le> NUM_LOCK_POINTS"
  shows "\<exists>s' fr' g. can1_rx_callback F fr s = Inr (s', [ToHaldex fr'])
           \<and> fr' = fr\<lparr>data_bytes := rewritten g (frame_id fr) (data_bytes fr)\<rparr>
           \<and> ((mode s = MODE_CUSTOM \<longrightarrow>
                   wf_table s \<and> 1 \<le> unat (lockpoint_count s)
                   \<and> unat (lockpoint_count s) \<le> NUM_LOCK_POINTS) \<longrightarrow>
                (\<forall>b. \<exists>s''. get_lock_target_adjusted_value F b s' = Inr (g b, s'')))
           \<and> frame_id fr' = frame_id fr \<and> frame_length fr' = frame_length fr
           \<and> length (data_bytes fr') = 8
           \<and> (\<forall>k<8. k \<notin> written_offsets (frame_id fr) \<longrightarrow>
                  data_bytes fr' ! k = data_bytes fr ! k)
           \<and> (written_offsets (frame_id fr) = {} \<longrightarrow> fr' = fr)
           \<and> (frame_id fr = MOTOR1_ID \<longrightarrow>
                  data_bytes fr' ! 0 = 0 \<and> data_bytes fr' ! 2 = 0x20
                  \<and> data_bytes fr' ! 6 = 0x20)"
proof -
  let ?in_range = "wf_table s \<and> 1 \<le> unat (lockpoint_count s)
                   \<and> unat (lockpoint_count s) \<le> NUM_LOCK_POINTS"
  have len: "length (data_bytes fr) = 8"
    using wf by (simp add: wf_frame_def)
  have "mode s \<noteq> MODE_FWD"
    using md by (auto simp: mode_defs)
  then obtain s1 where obs: "observe_car_frame F fr s = Inr (fr, s1)"
    and m1: "mode s1 = mode s" and t1: "lockpoints s1 = lockpoints s"
    and c1: "lockpoint_count s1 = lockpoint_count s"
    using observe_car_frame_not_forward [of s F fr] by blast
  have "\<exists>g s2. get_lock_data F fr s1 =
                 Inr (fr\<lparr>data_bytes := rewritten g (frame_id fr) (data_bytes fr)\<rparr>, s2)
               \<and> ((mode s = MODE_CUSTOM \<longrightarrow> ?in_range) \<longrightarrow>
                    (\<forall>b. \<exists>s''. get_lock_target_adjusted_value F b s2 = Inr (g b, s'')))"
  proof (cases "mode s = MODE_5050")
    case True
    then have "\<forall>b. get_lock_target_adjusted_value F b s1 =
                  Inr (if pedal_over F s1 then b else 0, s1)"
      using m1 by (simp add: get_lock_target_adjusted_value_def)
    then show ?thesis
      using get_lock_data_5050 [of s1 F fr] True m1 by auto
  next
    case False
    then have cu: "mode s = MODE_CUSTOM" using md by simp
    show ?thesis
    proof (cases ?in_range)
      case True
      then have "wf_table s1" "1 \<le> unat (lockpoint_count s1)"
          "unat (lockpoint_count s1) \<le> NUM_LOCK_POINTS"
        using t1 c1 by (simp_all add: wf_table_def)
      then obtain t where t: "get_lock_target_adjustment F s1 = Inr t"
        using adjustment_with_bounds [of s1 F] by blast
      let ?s2 = "if calls_adjusted (frame_id fr) then s1\<lparr>lock_target := t\<rparr> else s1"
      have "\<forall>b. get_lock_target_adjusted_value F b ?s2 =
                Inr (custom_adjusted F t b, s1\<lparr>lock_target := t\<rparr>)"
        using False m1 t
        by (simp add: get_lock_target_adjusted_value_def custom_adjusted_def
            adjustment_ignores_lock_target Let_def)
      then show ?thesis
        using get_lock_data_custom [of s1 F t fr] False m1 t by auto
    next
      case out: False
      then have "\<not> calls_adjusted (frame_id fr)"
        using tb cu by blast
      then have "get_lock_data F fr s1 =
                   Inr (fr\<lparr>data_bytes := rewritten (\<lambda>b. b) (frame_id fr) (data_bytes fr)\<rparr>, s1)"
        by (rule get_lock_data_no_call)
      then show ?thesis
        using out cu by blast
    qed
  qed
  then obtain g s2 where gld: "get_lock_data F fr s1 =
      Inr (fr\<lparr>data_bytes := rewritten g (frame_id fr) (data_bytes fr)\<rparr>, s2)"
    and adj: "(mode s = MODE_CUSTOM \<longrightarrow> ?in_range) \<longrightarrow>
                (\<forall>b. \<exists>s''. get_lock_target_adjusted_value F b s2 = Inr (g b, s''))"
    by blast
  let ?fr' = "fr\<lparr>data_bytes := rewritten g (frame_id fr) (data_bytes fr)\<rparr>"
  have cb: "can1_rx_callback F fr s = Inr (s2, [ToHaldex ?fr'])"
    using nm md m1 by (simp add: can1_rx_callback_def obs gld)
  have a: "length (data_bytes ?fr') = 8"
    using len by (simp add: rewritten_length)
  have b: "\<forall>k<8. k \<notin> written_offsets (frame_id fr) \<longrightarrow>
              data_bytes ?fr' ! k = data_bytes fr ! k"
    by (simp add: rewritten_elsewhere)
  have c: "written_offsets (frame_id fr) = {} \<longrightarrow> ?fr' = fr"
    by (simp add: rewritten_other_id)
  have d: "frame_id fr = MOTOR1_ID \<longrightarrow>
             data_bytes ?fr' ! 0 = 0 \<and> data_bytes ?fr' ! 2 = 0x20 \<and> data_bytes ?fr' ! 6 = 0x20"
    using len rewritten_motor1_fixed [of "data_bytes fr" g] by simp
  have e: "frame_id ?fr' = frame_id fr \<and> frame_length ?fr' = frame_length fr"
    by simp
  show ?thesis
    using cb adj a b c d e by blast
qed

theorem rewriter_leaves_other_bytes_witness:
  "(mode custom_state = MODE_5050 \<or> mode custom_state = MODE_CUSTOM)
   \<and> wf_frame (frame_of 0x380 8 [1, 2, 3, 4, 5, 6, 7, 8])
   \<and> calls_adjusted (frame_id (frame_of 0x380 8 [1, 2, 3, 4, 5, 6, 7, 8]))
   \<and> wf_table custom_state
   \<and> 1 \<le> unat (lockpoint_count custom_state)
   \<and> unat (lockpoint_count custom_state) \<le> NUM_LOCK_POINTS
   \<and> can1_rx_callback exact_ops (frame_of 0x380 8 [1, 2, 3, 4, 5, 6, 7, 8]) custom_state =
        Inr (custom_state\<lparr>lock_target := 40\<rparr>,
             [ToHaldex (frame_of 0x380 8 [1, 2, 100, 4, 5, 6, 7, 101])])
   \<and> (\<exists>s' fr'.
         can1_rx_callback exact_ops (frame_of 0x380 8 [1, 2, 3, 4, 5, 6, 7, 8]) custom_state =
           Inr (s', [ToHaldex fr'])
         \<and> data_bytes fr' ! 0 = 1 \<and> data_bytes fr' ! 1 = 2 \<and> data_bytes fr' ! 3 = 4
         \<and> data_bytes fr' ! 4 = 5 \<and> data_bytes fr' ! 5 = 6 \<and> data_bytes fr' ! 6 = 7)
   \<and> mode (custom_state\<lparr>lockpoint_count := 0\<rparr>) = MODE_CUSTOM
   \<and> \<not> calls_adjusted (frame_id (frame_of 0x123 8 [1, 2, 3, 4, 5, 6, 7, 8]))
   \<and> (\<exists>s'.
         can1_rx_callback exact_ops (frame_of 0x123 8 [1, 2, 3, 4, 5, 6, 7, 8])
           (custom_state\<lparr>lockpoint_count := 0\<rparr>) =
           Inr (s', [ToHaldex (frame_of 0x123 8 [1, 2, 3, 4, 5, 6, 7, 8])]))"
proof -
  let ?fr = "frame_of 0x380 8 [1, 2, 3, 4, 5, 6, 7, 8]"
  let ?other = "frame_of 0x123 8 [1, 2, 3, 4, 5, 6, 7, 8]"
  let ?empty = "custom_state\<lparr>lockpoint_count := 0\<rparr>"
  have md: "mode custom_state = MODE_5050 \<or> mode custom_state = MODE_CUSTOM"
    and md0: "mode ?empty = MODE_5050 \<or> mode ?empty = MODE_CUSTOM"
    and cu0: "mode ?empty = MODE_CUSTOM"
    by (simp_all add: custom_state_def mode_defs)
  have nm: "frame_id ?fr \<noteq> MASTER_MODE_ID" "frame_id ?fr \<noteq> MASTER_DATA_ID"
      "frame_id ?fr \<noteq> MASTER_DATA_CTRL_ID"
    and nm0: "frame_id ?other \<noteq> MASTER_MODE_ID" "frame_id ?other \<noteq> MASTER_DATA_ID"
      "frame_id ?other \<noteq> MASTER_DATA_CTRL_ID"
    by (simp_all add: frame_of_def id_defs)
  have wf: "wf_frame ?fr" and wf0: "wf_frame ?other"
    by (simp_all add: frame_of_def wf_frame_def)
  have ca: "calls_adjusted (frame_id ?fr)" and nc: "\<not> calls_adjusted (frame_id ?other)"
    by (simp_all add: calls_adjusted_def frame_of_def id_defs)
  have tb: "wf_table custom_state" "1 \<le> unat (lockpoint_count custom_state)"
      "unat (lockpoint_count custom_state) \<le> NUM_LOCK_POINTS"
    by (simp_all add: custom_state_def wf_table_def NUM_LOCK_POINTS_def)
  have ev: "can1_rx_callback exact_ops ?fr custom_state =
              Inr (custom_state\<lparr>lock_target := 40\<rparr>,
                   [ToHaldex (frame_of 0x380 8 [1, 2, 100, 4, 5, 6, 7, 101])])"
    by code_simp
  have off: "written_offsets (frame_id ?fr) = {2, 7}"
    and off0: "written_offsets (frame_id ?other) = {}"
    by (simp_all add: written_offsets_def frame_of_def id_defs)
  from rewriter_leaves_other_bytes [OF md nm wf, of exact_ops] tb
  obtain s' fr' and g :: "u8 \<Rightarrow> u8"
    where cb: "can1_rx_callback exact_ops ?fr custom_state = Inr (s', [ToHaldex fr'])"
    and same: "\<forall>k<8. k \<notin> written_offsets (frame_id ?fr) \<longrightarrow>
                 data_bytes fr' ! k = data_bytes ?fr ! k"
    by blast
  have kept: "data_bytes fr' ! 0 = 1 \<and> data_bytes fr' ! 1 = 2 \<and> data_bytes fr' ! 3 = 4
         \<and> data_bytes fr' ! 4 = 5 \<and> data_bytes fr' ! 5 = 6 \<and> data_bytes fr' ! 6 = 7"
    using same [rule_format, of 0] same [rule_format, of 1] same [rule_format, of 3]
      same [rule_format, of 4] same [rule_format, of 5] same [rule_format, of 6]
    by (simp add: off) (simp add: frame_of_def)
  from rewriter_leaves_other_bytes [OF md0 nm0 wf0, of exact_ops] nc
  obtain s0 fr0 and g0 :: "u8 \<Rightarrow> u8"
    where cb0: "can1_rx_callback exact_ops ?other ?empty = Inr (s0, [ToHaldex fr0])"
    and un0: "written_offsets (frame_id ?other) = {} \<longrightarrow> fr0 = ?other"
    by blast
  have through: "\<exists>s'. can1_rx_callback exact_ops ?other ?empty = Inr (s', [ToHaldex ?other])"
    using cb0 un0 off0 by auto
  show ?thesis
    using md wf ca tb ev cb kept cu0 nc through by blast
qed

text \<open>
  C4 as stated fails: bytes 0, 2 and 6 of a 0x280 frame are overwritten with constants.
  With the pedal below the threshold in FiftyFifty mode every adjusted value is 0, and
  bytes 2 and 6 are relayed as 0x20, whatever they were.
\<close>

theorem motor1_constant_bytes_overwritten:
  "can1_rx_callback exact_ops (frame_of 0x280 8 [0xFF, 0xFF, 0xFF, 0xFF, 0xFF, 0, 0xFF, 0xFF])
     fifty_state =
     Inr (fifty_state\<lparr>ped_value := 0\<rparr>,
          [ToHaldex (frame_of 0x280 8 [0, 0, 0x20, 0, 0, 0, 0x20, 0])])
   \<and> mode fifty_state = MODE_5050
   \<and> get_lock_target_adjusted_value exact_ops 0x20 (fifty_state\<lparr>ped_value := 0\<rparr>) =
        Inr (0, fifty_state\<lparr>ped_value := 0\<rparr>)"
  by (simp add: can1_rx_callback_def observe_car_frame_def get_lock_data_def put_byte_def
      put_adjusted_def get_lock_target_adjusted_value_def pedal_over_def frame_of_def
      fifty_state_def exact_ops_def id_defs mode_defs list_numerals)

section \<open>Table reads outside the array\<close>

text \<open>
  C2: with \<^verbatim>\<open>lockpoint_count == 0\<close>, after start-up with a blank configuration and
  after a Clear in any state, \<^verbatim>\<open>get_lock_target_adjustment\<close> reads
  \<^verbatim>\<open>lockpoints[lockpoint_count - 1]\<close>, which is index -1.
\<close>

theorem count_zero_reads_before_table:
  "get_lock_target_adjustment F (startup F None) = Inl (TableIndex (- 1))
   \<and> get_lock_target_adjustment F
        (fst (on_master_data_ctrl F (frame_of MASTER_DATA_CTRL_ID 1 [1, 0, 0, 0, 0, 0, 0, 0]) s)) =
        Inl (TableIndex (- 1))"
  by (simp add: get_lock_target_adjustment_def lp_read_def startup_def on_master_data_ctrl_def
      frame_of_def NUM_LOCK_POINTS_def ctrl_defs list_numerals)

text \<open>
  C10: states reached from start-up by received frames in which
  \<^verbatim>\<open>get_lock_target_adjustment\<close> reads outside the table. Custom mode and a 0x380
  frame with no lockpoint received read index -1; eleven master-data frames for index 0
  leave the counter at 11 and the next 0x380 frame reads index 10.
\<close>

theorem reachable_count_leaves_table:
  "receive_all exact_ops
     [frame_of MASTER_MODE_ID 2 [3, 0, 0, 0, 0, 0, 0, 0],
      frame_of MOTOR3_ID 8 [0, 0, 0, 0, 0, 0, 0, 0]] (startup exact_ops None) =
     Inl (TableIndex (- 1))
   \<and> receive_all exact_ops
     (frame_of MASTER_MODE_ID 2 [3, 0, 0, 0, 0, 0, 0, 0]
      # replicate 11 (frame_of MASTER_DATA_ID 4 [0, 10, 20, 0, 0, 0, 0, 0])
      @ [frame_of MOTOR3_ID 8 [0, 0, 0, 0, 0, 0, 0, 0]]) (startup exact_ops None) =
     Inl (TableIndex 10)"
  by code_simp

end
